theory Spec2Isabelle
  imports Main
begin

section \<open>Data model of the extension interface\<close>

text \<open>
  The interfaces of the Antlers extension API that the functions of the repository read
  or build, as records. A TypeScript \<^verbatim>\<open>number\<close> that holds a line or an offset is an
  \<^typ>\<open>int\<close>; \<^verbatim>\<open>T | null\<close> is \<^typ>\<open>'a option\<close>; an array is a list. Several
  interfaces share field names (\<^verbatim>\<open>startLine\<close>, \<^verbatim>\<open>startOffset\<close>, \<^verbatim>\<open>name\<close>), so
  fields are written with their record's name in front.
\<close>

subsection \<open>Positions and ranges of the language-server protocol\<close>

record Position =
  line :: int
  character :: int

text \<open>The protocol's \<^verbatim>\<open>Range.end\<close> is the field \<open>end'\<close> here.\<close>

record Range =
  start :: Position
  end' :: Position

datatype DiagnosticSeverity = Error | Warning | Information | Hint

subsection \<open>Reportable errors\<close>

record IErrorLocation =
  startLine :: int
  endLine :: int
  startPos :: int
  endPos :: int
  severity :: DiagnosticSeverity

record IReportableError = IErrorLocation +
  message :: string

subsection \<open>Modifiers\<close>

record IModifierParameter =
  name :: string
  description :: string

record IModifier =
  name :: string
  acceptsType :: "string list"
  returnsType :: "string list"
  description :: string
  parameters :: "IModifierParameter list"
  docLink :: "string option"
  canBeParameter :: bool

subsection \<open>Symbols\<close>

text \<open>
  \<^verbatim>\<open>ISymbol\<close>: the fields that classify and place a symbol. The interface's \<^verbatim>\<open>id\<close> is
  \<open>symbolId\<close>; \<^verbatim>\<open>belongsTo\<close> and \<^verbatim>\<open>isClosedBy\<close> refer to another symbol, and hold that
  symbol's id. The fields that hold analysis results (\<^verbatim>\<open>currentScope\<close>,
  \<^verbatim>\<open>scopeVariable\<close>, \<^verbatim>\<open>parameterCache\<close>, \<^verbatim>\<open>runtimeType\<close>, \<^verbatim>\<open>modifiers\<close>,
  \<^verbatim>\<open>reference\<close>) are read by no function of the repository and are left out.
\<close>

record ISymbol =
  symbolId :: string
  isComment :: bool
  tagPart :: string
  sourceType :: string
  manifestType :: string
  mustClose :: "bool option"
  existingParamNames :: "string list"
  name :: string
  runtimeName :: string
  methodName :: "string option"
  content :: string
  parameterContent :: string
  parameterContentStart :: int
  parameterContentStartLine :: int
  isClosingTag :: bool
  belongsTo :: "string option"
  isClosedBy :: "string option"
  scopeName :: "string option"
  isTag :: bool
  startLine :: int
  endLine :: int
  startOffset :: int
  endOffset :: int
  isInterpolationSymbol :: bool

text \<open>The field \<^verbatim>\<open>value\<close> of the next two interfaces is \<open>val\<close> here.\<close>

record IVariableInterpolation =
  val :: string
  startOffset :: int
  endOffset :: int
  symbols :: "ISymbol list"

record IParameterAttribute =
  name :: string
  val :: string
  contentStartsAt :: int
  startOffset :: int
  endOffset :: int
  isDynamicBinding :: bool
  isCompound :: bool
  containsInterpolation :: bool
  interpolations :: "IVariableInterpolation list"
  isModifier :: bool
  modifier :: "IModifier option"

subsection \<open>Suggestion requests\<close>

record ISuggestionRequest =
  document :: string
  isCaretInTag :: bool
  leftChar :: string
  leftWord :: string
  leftMeaningfulWord :: "string option"
  originalLeftWord :: string
  rightChar :: string
  rightWord :: string
  activeParameter :: "IParameterAttribute option"
  activeInterpolation :: "IVariableInterpolation option"
  position :: Position
  currentSymbol :: "ISymbol option"
  symbolsInScope :: "ISymbol list"
  isInDoubleBraces :: bool
  isInVariableInterpolation :: bool
  interpolationStartsOn :: "int option"

section \<open>The functions of the interface file\<close>

text \<open>
  \<^verbatim>\<open>getParameterRange\<close>: when \<^verbatim>\<open>symbolsInScope\<close> is not empty, the range of its
  element at index \<^verbatim>\<open>length - 1\<close>; \<^verbatim>\<open>null\<close> otherwise.
\<close>

definition getParameterRange :: "ISuggestionRequest \<Rightarrow> Range option" where
  "getParameterRange params =
     (if length (symbolsInScope params) > 0 then
        (let lastSymbolInScope = symbolsInScope params ! (length (symbolsInScope params) - 1)
         in Some \<lparr> start = \<lparr> Position.line = ISymbol.startLine lastSymbolInScope,
                             character = ISymbol.startOffset lastSymbolInScope \<rparr>,
                   end' = \<lparr> Position.line = ISymbol.endLine lastSymbolInScope,
                            character = ISymbol.endOffset lastSymbolInScope \<rparr> \<rparr>)
      else None)"

text \<open>
  \<^verbatim>\<open>symbolToReportableError\<close>, field by field as the source builds the object: both
  \<^verbatim>\<open>startLine\<close> and \<^verbatim>\<open>endLine\<close> are read from \<^verbatim>\<open>symbol.startLine\<close>.
\<close>

definition symbolToReportableError ::
  "string \<Rightarrow> DiagnosticSeverity \<Rightarrow> ISymbol \<Rightarrow> IReportableError" where
  "symbolToReportableError msg sev symbol =
     \<lparr> IErrorLocation.startLine = ISymbol.startLine symbol,
       IErrorLocation.endLine = ISymbol.startLine symbol,
       startPos = ISymbol.startOffset symbol,
       endPos = ISymbol.endOffset symbol,
       severity = sev,
       message = msg \<rparr>"

text \<open>Symbols and requests with given positions, the other fields at fixed values.\<close>

definition symbolAt :: "int \<Rightarrow> int \<Rightarrow> int \<Rightarrow> int \<Rightarrow> ISymbol" where
  "symbolAt sl so el eo =
     \<lparr> symbolId = ''s'', isComment = False, tagPart = ''collection'', sourceType = ''*'',
       manifestType = ''*'', mustClose = None, existingParamNames = [],
       name = ''collection'', runtimeName = ''collection'', methodName = None,
       content = ''collection'', parameterContent = [], parameterContentStart = so,
       parameterContentStartLine = sl, isClosingTag = False, belongsTo = None,
       isClosedBy = None, scopeName = None, isTag = True,
       startLine = sl, endLine = el, startOffset = so, endOffset = eo,
       isInterpolationSymbol = False \<rparr>"

definition requestWith :: "ISymbol list \<Rightarrow> ISuggestionRequest" where
  "requestWith syms =
     \<lparr> document = ''file:///a.antlers.html'', isCaretInTag = False, leftChar = [],
       leftWord = [], leftMeaningfulWord = None, originalLeftWord = [], rightChar = [],
       rightWord = [], activeParameter = None, activeInterpolation = None,
       position = \<lparr> Position.line = 0, character = 0 \<rparr>, currentSymbol = None,
       symbolsInScope = syms, isInDoubleBraces = False,
       isInVariableInterpolation = False, interpolationStartsOn = None \<rparr>"

section \<open>The client: asking the Antlers extension to load the addon\<close>

text \<open>
  The part of the editor that \<^verbatim>\<open>sendLoadAddonRequest\<close> talks to. An installed
  extension has the flag \<^verbatim>\<open>isActive\<close>; \<open>activationFulfils\<close> says whether the promise
  that its \<^verbatim>\<open>activate()\<close> returns is fulfilled (otherwise it is rejected). The editor
  records the calls it receives, in order.
\<close>

record Extension =
  isActive :: bool
  activationFulfils :: bool

datatype HostEvent = ActivateCalled string | CommandExecuted string "string list"

record Host =
  installed :: "string \<rightharpoonup> Extension"
  events :: "HostEvent list"

record ExtensionContext =
  extensionPath :: string

text \<open>\<^verbatim>\<open>vscode.extensions.getExtension(id)\<close>: the extension, or \<^verbatim>\<open>undefined\<close>.\<close>

definition getExtension :: "Host \<Rightarrow> string \<Rightarrow> Extension option" where
  "getExtension h extId = installed h extId"

text \<open>\<^verbatim>\<open>vscode.commands.executeCommand(command, ...args)\<close>.\<close>

definition executeCommand :: "string \<Rightarrow> string list \<Rightarrow> Host \<Rightarrow> Host" where
  "executeCommand cmd args h = h\<lparr> events := events h @ [CommandExecuted cmd args] \<rparr>"

text \<open>
  \<^verbatim>\<open>ext.activate().then(k)\<close>, with no rejection handler, for the installed extension
  \<open>ext\<close> of id \<open>extId\<close>: the editor is asked to activate the extension; \<open>k\<close> runs
  once the promise is fulfilled, on the editor with the extension active, and never runs
  when the promise is rejected. The function gives the editor after the promise has
  settled.
\<close>

definition activateThen :: "string \<Rightarrow> Extension \<Rightarrow> (Host \<Rightarrow> Host) \<Rightarrow> Host \<Rightarrow> Host" where
  "activateThen extId ext k h =
     (let h1 = h\<lparr> events := events h @ [ActivateCalled extId] \<rparr>
      in if activationFulfils ext
         then k (h1\<lparr> installed := (installed h1)(extId \<mapsto> ext\<lparr> isActive := True \<rparr>) \<rparr>)
         else h1)"

definition sendLoadAddonRequest :: "string \<Rightarrow> Host \<Rightarrow> Host" where
  "sendLoadAddonRequest path h =
     (case getExtension h ''stillat.vscode-antlers'' of
        Some antlersLanguageClient \<Rightarrow>
          if isActive antlersLanguageClient = False
          then activateThen ''stillat.vscode-antlers'' antlersLanguageClient
                 (executeCommand ''vscodeAntlers.reloadAddons'' [path @ ''/antlers/package.json''])
                 h
          else h
      | None \<Rightarrow>
          executeCommand ''vscodeAntlers.reloadAddons'' [path @ ''/antlers/package.json''] h)"

text \<open>The client's \<^verbatim>\<open>activate(context)\<close> of \<^verbatim>\<open>extension.ts\<close>.\<close>

definition activate :: "ExtensionContext \<Rightarrow> Host \<Rightarrow> Host" where
  "activate context h = sendLoadAddonRequest (extensionPath context) h"

text \<open>An editor that has received no call yet, with or without the Antlers extension.\<close>

definition hostWith :: "Extension option \<Rightarrow> Host" where
  "hostWith ext =
     \<lparr> installed = (\<lambda>extId. if extId = ''stillat.vscode-antlers'' then ext else None),
       events = [] \<rparr>"

section \<open>Modifier chains\<close>

text \<open>
  The interfaces \<^verbatim>\<open>IModifierArgument\<close>, \<^verbatim>\<open>ISymbolModifier\<close> and
  \<^verbatim>\<open>ISymbolModifierCollection\<close> as the interface file declares them (an argument's
  \<^verbatim>\<open>scopeVariable\<close> is left out). The repository declares these interfaces and has no
  function that fills them.
\<close>

record IModifierArgument =
  content :: string
  order :: int
  startOffset :: int
  endOffset :: int
  line :: int

record ISymbolModifier =
  content :: string
  source :: string
  name :: string
  startOffset :: int
  endOffset :: int
  line :: int
  hasRegisteredModifier :: bool
  modifier :: "IModifier option"
  args :: "IModifierArgument list"

record ISymbolModifierCollection =
  hasModifiers :: bool
  hasParamModifiers :: bool
  hasShorthandModifiers :: bool
  hasMixedStyles :: bool
  modifiers :: "ISymbolModifier list"
  paramModifiers :: "ISymbolModifier list"
  shorthandModifiers :: "ISymbolModifier list"
  trailingModifier :: "ISymbolModifier option"
  manifestType :: string

text \<open>
  Modelled from the spec: the modifier table of the capability registry, by modifier name
  (section 4.5: registration is per name, the last registration for a name wins). The
  repository has no registry.
\<close>

type_synonym ModifierTable = "string \<rightharpoonup> IModifier"

text \<open>
  Modelled from the spec: resolving one parsed modifier against the modifier table
  (section 4.4); a name that is not registered leaves \<^verbatim>\<open>hasRegisteredModifier = false\<close>
  and no modifier reference. The repository has no function that does this.
\<close>

definition resolveModifier :: "ModifierTable \<Rightarrow> ISymbolModifier \<Rightarrow> ISymbolModifier" where
  "resolveModifier table m =
     m\<lparr> hasRegisteredModifier := (table (ISymbolModifier.name m) \<noteq> None),
        modifier := table (ISymbolModifier.name m) \<rparr>"

text \<open>
  Modelled from the spec: the type after one link of a chain (section 3, ModifierChain).
  A registered modifier replaces the type that comes in by its declared return type; an
  unregistered one leaves it unchanged. \<^verbatim>\<open>IModifier.returnsType\<close> is a list of type
  names and a manifest type is one name; how one name is chosen from the list is not part
  of the spec, and is the parameter \<open>specific\<close>.
\<close>

definition typeAfter :: "(string list \<Rightarrow> string) \<Rightarrow> string \<Rightarrow> ISymbolModifier \<Rightarrow> string" where
  "typeAfter specific ty m =
     (case ISymbolModifier.modifier m of
        Some d \<Rightarrow> if hasRegisteredModifier m then specific (returnsType d) else ty
      | None \<Rightarrow> ty)"

text \<open>
  Modelled from the spec: the composition of a chain, strictly left to right from the
  source type, each link's type going into the next link (sections 3 and 4.4).
\<close>

definition composeTypes :: "(string list \<Rightarrow> string) \<Rightarrow> string \<Rightarrow> ISymbolModifier list \<Rightarrow> string" where
  "composeTypes specific t ms = foldl (typeAfter specific) t ms"

text \<open>
  Modelled from the spec: the modifier collection of a value with source type \<open>t\<close> and
  the parsed modifiers \<open>parsed\<close>, in the order of the chain (sections 3 and 4.4): every
  modifier is resolved, the two styles are told apart by \<^verbatim>\<open>source\<close>, and the manifest
  type is the composition of the whole chain. The repository has no function that builds
  the collection.
\<close>

definition makeModifierCollection ::
  "(string list \<Rightarrow> string) \<Rightarrow> ModifierTable \<Rightarrow> string \<Rightarrow> ISymbolModifier list
     \<Rightarrow> ISymbolModifierCollection" where
  "makeModifierCollection specific table t parsed =
     (let ms = map (resolveModifier table) parsed;
          ps = filter (\<lambda>m. source m = ''parameter'') ms;
          ss = filter (\<lambda>m. source m = ''shorthand'') ms
      in \<lparr> hasModifiers = (ms \<noteq> []),
           hasParamModifiers = (ps \<noteq> []),
           hasShorthandModifiers = (ss \<noteq> []),
           hasMixedStyles = (ps \<noteq> [] \<and> ss \<noteq> []),
           modifiers = ms,
           paramModifiers = ps,
           shorthandModifiers = ss,
           trailingModifier = (if ms = [] then None else Some (last ms)),
           manifestType = composeTypes specific t ms \<rparr>)"

text \<open>
  The definitions of the registered modifiers of a chain, in the order of the chain: what
  the type of the chain is stated in terms of.
\<close>

definition registeredIn :: "ModifierTable \<Rightarrow> ISymbolModifier list \<Rightarrow> IModifier list" where
  "registeredIn table parsed = List.map_filter (\<lambda>m. table (ISymbolModifier.name m)) parsed"

text \<open>
  A chain to try the definitions on: the shorthand modifier \<open>nm\<close> as the parser leaves
  it, a modifier definition with given accepted and returned types, a table with the
  modifiers \<^verbatim>\<open>length\<close> (returns a number) and \<^verbatim>\<open>ensure_right\<close> (from a number or a
  string to a string), and the choice of the first declared return type.
\<close>

definition shorthand :: "string \<Rightarrow> ISymbolModifier" where
  "shorthand nm =
     \<lparr> ISymbolModifier.content = nm, source = ''shorthand'', name = nm, startOffset = 0,
       endOffset = int (length nm), line = 0, hasRegisteredModifier = False,
       modifier = None, args = [] \<rparr>"

definition modifierOf :: "string \<Rightarrow> string list \<Rightarrow> string list \<Rightarrow> IModifier" where
  "modifierOf nm accepts returns =
     \<lparr> IModifier.name = nm, acceptsType = accepts, returnsType = returns, description = [],
       parameters = [], docLink = None, canBeParameter = False \<rparr>"

definition twoModifiers :: ModifierTable where
  "twoModifiers =
     [''length'' \<mapsto> modifierOf ''length'' [''array'', ''string''] [''number''],
      ''ensure_right'' \<mapsto> modifierOf ''ensure_right'' [''number'', ''string''] [''string'']]"

definition firstDeclared :: "string list \<Rightarrow> string" where
  "firstDeclared ts = (case ts of [] \<Rightarrow> ''*'' | ty # _ \<Rightarrow> ty)"

section \<open>Properties of the interface functions\<close>

lemma symbolToReportableError_fields:
  "symbolToReportableError m v S =
     \<lparr> IErrorLocation.startLine = ISymbol.startLine S,
       IErrorLocation.endLine = ISymbol.startLine S,
       startPos = ISymbol.startOffset S, endPos = ISymbol.endOffset S,
       severity = v, message = m \<rparr>"
  by (simp add: symbolToReportableError_def)

lemma symbolToReportableError_endLine_iff:
  "IErrorLocation.endLine (symbolToReportableError m v S) = ISymbol.endLine S
     \<longleftrightarrow> ISymbol.startLine S = ISymbol.endLine S"
  by (simp add: symbolToReportableError_def)

text \<open>
  C1. The claim asks that the reported range ends on the symbol's end line. For a symbol
  that starts on line 1 and ends on line 2 the error built by
  \<^verbatim>\<open>symbolToReportableError\<close> ends on line 1: the end line is read from the start
  line, while the end offset is the symbol's end offset (the other fields are as claimed).
\<close>

theorem symbolToReportableError_endLine_is_startLine:
  "IErrorLocation.endLine (symbolToReportableError ''unclosed tag'' Error (symbolAt 1 0 2 5)) = 1
   \<and> ISymbol.endLine (symbolAt 1 0 2 5) = 2
   \<and> IErrorLocation.endPos (symbolToReportableError ''unclosed tag'' Error (symbolAt 1 0 2 5)) = 5"
  by (simp add: symbolToReportableError_def symbolAt_def)

text \<open>
  C3. If \<^verbatim>\<open>symbolsInScope\<close> of a request is not empty, \<^verbatim>\<open>getParameterRange\<close>
  returns the range from (start line, start offset) to (end line, end offset) of its last
  element; if it is empty, it returns \<^verbatim>\<open>null\<close>.
\<close>

theorem getParameterRange_last_symbol:
  "(symbolsInScope R \<noteq> [] \<longrightarrow>
      getParameterRange R =
        Some \<lparr> start = \<lparr> Position.line = ISymbol.startLine (last (symbolsInScope R)),
                         character = ISymbol.startOffset (last (symbolsInScope R)) \<rparr>,
               end' = \<lparr> Position.line = ISymbol.endLine (last (symbolsInScope R)),
                        character = ISymbol.endOffset (last (symbolsInScope R)) \<rparr> \<rparr>)
   \<and> (symbolsInScope R = [] \<longrightarrow> getParameterRange R = None)"
  by (simp add: getParameterRange_def Let_def last_conv_nth)

theorem getParameterRange_last_symbol_witness:
  "getParameterRange (requestWith [symbolAt 1 2 1 9, symbolAt 3 4 5 6]) =
     Some \<lparr> start = \<lparr> Position.line = 3, character = 4 \<rparr>, end' = \<lparr> Position.line = 5, character = 6 \<rparr> \<rparr>
   \<and> getParameterRange (requestWith []) = None"
  using getParameterRange_last_symbol [of "requestWith [symbolAt 1 2 1 9, symbolAt 3 4 5 6]"]
    getParameterRange_last_symbol [of "requestWith []"]
  by (simp add: requestWith_def symbolAt_def)

section \<open>Properties of the client\<close>

lemma activate_sends_request:
  "activate context h = sendLoadAddonRequest (extensionPath context) h"
  by (simp add: activate_def)

text \<open>
  C4 as the claim states it has the command executed whenever the Antlers extension is
  installed and not active. On an editor where the extension is installed, not active, and
  the promise of its \<^verbatim>\<open>activate()\<close> is rejected, the callback given to \<^verbatim>\<open>then\<close> never
  runs: the editor receives the activation call and no command.
\<close>

theorem sendLoadAddonRequest_rejected_activation_counterexample:
  "installed (hostWith (Some \<lparr> isActive = False, activationFulfils = False \<rparr>))
       ''stillat.vscode-antlers'' = Some \<lparr> isActive = False, activationFulfils = False \<rparr>
   \<and> events (sendLoadAddonRequest ''/ext''
         (hostWith (Some \<lparr> isActive = False, activationFulfils = False \<rparr>))) =
     [ActivateCalled ''stillat.vscode-antlers'']
   \<and> CommandExecuted ''vscodeAntlers.reloadAddons'' [''/ext/antlers/package.json'']
       \<notin> set (events (sendLoadAddonRequest ''/ext''
           (hostWith (Some \<lparr> isActive = False, activationFulfils = False \<rparr>))))"
  by (simp add: sendLoadAddonRequest_def getExtension_def activateThen_def hostWith_def)

text \<open>
  C4, as amended. For every extension path, \<^verbatim>\<open>sendLoadAddonRequest\<close> executes the
  command \<^verbatim>\<open>vscodeAntlers.reloadAddons\<close> with the one argument \<^verbatim>\<open>extensionPath +
  '/antlers/package.json'\<close> when the Antlers extension is not installed. When it is
  installed and not active, it first asks for its activation; it executes the same command
  once the activation is fulfilled, and executes no command when the activation is
  rejected. When it is installed and active, it executes no command (the editor receives
  no call at all).
\<close>

theorem sendLoadAddonRequest_dispatch:
  "(installed h ''stillat.vscode-antlers'' = None \<longrightarrow>
      events (sendLoadAddonRequest p h) =
        events h @ [CommandExecuted ''vscodeAntlers.reloadAddons'' [p @ ''/antlers/package.json'']])
   \<and> (\<forall>e. installed h ''stillat.vscode-antlers'' = Some e \<and> \<not> isActive e
          \<and> activationFulfils e \<longrightarrow>
      events (sendLoadAddonRequest p h) =
        events h @ [ActivateCalled ''stillat.vscode-antlers'',
                    CommandExecuted ''vscodeAntlers.reloadAddons'' [p @ ''/antlers/package.json'']])
   \<and> (\<forall>e. installed h ''stillat.vscode-antlers'' = Some e \<and> \<not> isActive e
          \<and> \<not> activationFulfils e \<longrightarrow>
      events (sendLoadAddonRequest p h) =
        events h @ [ActivateCalled ''stillat.vscode-antlers''])
   \<and> (\<forall>e. installed h ''stillat.vscode-antlers'' = Some e \<and> isActive e \<longrightarrow>
      sendLoadAddonRequest p h = h)"
  by (simp add: sendLoadAddonRequest_def getExtension_def activateThen_def executeCommand_def)

theorem sendLoadAddonRequest_dispatch_witness:
  "events (sendLoadAddonRequest ''/ext'' (hostWith None)) =
     [CommandExecuted ''vscodeAntlers.reloadAddons'' [''/ext/antlers/package.json'']]
   \<and> events (sendLoadAddonRequest ''/ext''
         (hostWith (Some \<lparr> isActive = False, activationFulfils = True \<rparr>))) =
     [ActivateCalled ''stillat.vscode-antlers'',
      CommandExecuted ''vscodeAntlers.reloadAddons'' [''/ext/antlers/package.json'']]
   \<and> events (sendLoadAddonRequest ''/ext''
         (hostWith (Some \<lparr> isActive = False, activationFulfils = False \<rparr>))) =
     [ActivateCalled ''stillat.vscode-antlers'']
   \<and> events (sendLoadAddonRequest ''/ext''
         (hostWith (Some \<lparr> isActive = True, activationFulfils = True \<rparr>))) = []"
  using sendLoadAddonRequest_dispatch [of "hostWith None" "''/ext''"]
    sendLoadAddonRequest_dispatch
      [of "hostWith (Some \<lparr> isActive = False, activationFulfils = True \<rparr>)" "''/ext''"]
    sendLoadAddonRequest_dispatch
      [of "hostWith (Some \<lparr> isActive = False, activationFulfils = False \<rparr>)" "''/ext''"]
    sendLoadAddonRequest_dispatch
      [of "hostWith (Some \<lparr> isActive = True, activationFulfils = True \<rparr>)" "''/ext''"]
  by (simp add: hostWith_def)

section \<open>Properties of modifier chains\<close>

lemma typeAfter_resolved:
  "typeAfter specific ty (resolveModifier table m) =
     (case table (ISymbolModifier.name m) of Some d \<Rightarrow> specific (returnsType d) | None \<Rightarrow> ty)"
  by (simp add: typeAfter_def resolveModifier_def split: option.splits)

lemma composeTypes_snoc:
  "composeTypes specific t (ms @ [m]) = typeAfter specific (composeTypes specific t ms) m"
  by (simp add: composeTypes_def)

lemma registeredIn_snoc:
  "registeredIn table (parsed @ [m]) =
     registeredIn table parsed @ (case table (ISymbolModifier.name m) of Some d \<Rightarrow> [d] | None \<Rightarrow> [])"
  by (simp add: registeredIn_def List.map_filter_def split: option.splits)

lemma composeTypes_resolved:
  "composeTypes specific t (map (resolveModifier table) parsed) =
     (if registeredIn table parsed = [] then t
      else specific (returnsType (last (registeredIn table parsed))))"
proof (induction parsed rule: rev_induct)
  case Nil
  show ?case by (simp add: composeTypes_def registeredIn_def)
next
  case (snoc m parsed)
  show ?case
    using snoc.IH
    by (simp add: composeTypes_snoc typeAfter_resolved registeredIn_snoc split: option.splits)
qed

lemma modifiers_makeModifierCollection:
  "modifiers (makeModifierCollection specific table t parsed) = map (resolveModifier table) parsed"
  by (simp add: makeModifierCollection_def Let_def)

lemma manifestType_makeModifierCollection:
  "ISymbolModifierCollection.manifestType (makeModifierCollection specific table t parsed) =
     composeTypes specific t (map (resolveModifier table) parsed)"
  by (simp add: makeModifierCollection_def Let_def)

lemma manifestType_registered:
  "ISymbolModifierCollection.manifestType (makeModifierCollection specific table t parsed) =
     (if registeredIn table parsed = [] then t
      else specific (returnsType (last (registeredIn table parsed))))"
  by (simp only: manifestType_makeModifierCollection composeTypes_resolved)

lemma manifestType_last_registered:
  assumes "parsed \<noteq> []" and "table (ISymbolModifier.name (last parsed)) = Some d"
  shows "ISymbolModifierCollection.manifestType (makeModifierCollection specific table t parsed) =
     specific (returnsType d)"
proof -
  from assms(1) obtain ys y where p: "parsed = ys @ [y]"
    by (metis rev_exhaust)
  with assms(2) have "table (ISymbolModifier.name y) = Some d" by simp
  then show ?thesis
    by (simp add: manifestType_makeModifierCollection p composeTypes_snoc typeAfter_resolved)
qed

lemma link_of_chain:
  assumes "k < length parsed"
  shows "hasRegisteredModifier (map (resolveModifier table) parsed ! k) =
           (table (ISymbolModifier.name (parsed ! k)) \<noteq> None)
     \<and> composeTypes specific t (take (Suc k) (map (resolveModifier table) parsed)) =
         (case table (ISymbolModifier.name (parsed ! k)) of
            Some d \<Rightarrow> specific (returnsType d)
          | None \<Rightarrow> composeTypes specific t (take k (map (resolveModifier table) parsed)))"
proof
  show "hasRegisteredModifier (map (resolveModifier table) parsed ! k) =
           (table (ISymbolModifier.name (parsed ! k)) \<noteq> None)"
    using assms by (simp add: resolveModifier_def)
next
  have "take (Suc k) (map (resolveModifier table) parsed) =
          take k (map (resolveModifier table) parsed) @ [resolveModifier table (parsed ! k)]"
    using assms by (simp add: take_Suc_conv_app_nth)
  then show "composeTypes specific t (take (Suc k) (map (resolveModifier table) parsed)) =
         (case table (ISymbolModifier.name (parsed ! k)) of
            Some d \<Rightarrow> specific (returnsType d)
          | None \<Rightarrow> composeTypes specific t (take k (map (resolveModifier table) parsed)))"
    by (simp only: composeTypes_snoc typeAfter_resolved)
qed

lemma chain_of_two:
  assumes "table (ISymbolModifier.name a) = Some d1" and "specific (returnsType d1) = ''number''"
  shows "(\<forall>d2. table (ISymbolModifier.name b) = Some d2 \<and> specific (returnsType d2) = ''string'' \<longrightarrow>
            ISymbolModifierCollection.manifestType (makeModifierCollection specific table t [a, b]) = ''string'')
     \<and> (table (ISymbolModifier.name b) = None \<longrightarrow>
            ISymbolModifierCollection.manifestType (makeModifierCollection specific table t [a, b]) = ''number''
            \<and> \<not> hasRegisteredModifier (modifiers (makeModifierCollection specific table t [a, b]) ! 1))"
proof -
  have flag: "table (ISymbolModifier.name b) = None \<Longrightarrow>
      \<not> hasRegisteredModifier (resolveModifier table b)"
    by (simp add: resolveModifier_def)
  show ?thesis
    using assms flag
    by (simp add: manifestType_makeModifierCollection modifiers_makeModifierCollection
        composeTypes_def typeAfter_resolved)
qed

text \<open>
  C2, as amended. For every modifier chain on a value with source type \<open>t\<close>: the
  manifest type is the declared return type of the last registered modifier of the chain,
  and \<open>t\<close> when no modifier of the chain is registered; so it is the declared return
  type of the last modifier when that one is registered. The chain is composed strictly
  left to right and is not broken: every parsed modifier is a link, link \<open>k\<close> has
  \<^verbatim>\<open>hasRegisteredModifier\<close> exactly when its name is registered, and the type after
  link \<open>k\<close> is the link's declared return type when it is registered and the type that
  came into the link when it is not. In particular, for a chain of two whose first modifier
  returns \<^verbatim>\<open>number\<close>: the manifest type is \<^verbatim>\<open>string\<close> when the second is registered
  and returns \<^verbatim>\<open>string\<close>, and it is \<^verbatim>\<open>number\<close>, with \<^verbatim>\<open>hasRegisteredModifier\<close>
  false on the second link, when the second is not registered.
\<close>

theorem manifestType_of_chain:
  "ISymbolModifierCollection.manifestType (makeModifierCollection specific table t parsed) =
     (if registeredIn table parsed = [] then t
      else specific (returnsType (last (registeredIn table parsed))))
   \<and> (\<forall>d. parsed \<noteq> [] \<and> table (ISymbolModifier.name (last parsed)) = Some d \<longrightarrow>
         ISymbolModifierCollection.manifestType (makeModifierCollection specific table t parsed) =
           specific (returnsType d))
   \<and> length (modifiers (makeModifierCollection specific table t parsed)) = length parsed
   \<and> (\<forall>k<length parsed.
         hasRegisteredModifier (modifiers (makeModifierCollection specific table t parsed) ! k) =
           (table (ISymbolModifier.name (parsed ! k)) \<noteq> None)
         \<and> composeTypes specific t
             (take (Suc k) (modifiers (makeModifierCollection specific table t parsed))) =
           (case table (ISymbolModifier.name (parsed ! k)) of
              Some d \<Rightarrow> specific (returnsType d)
            | None \<Rightarrow> composeTypes specific t
                (take k (modifiers (makeModifierCollection specific table t parsed)))))
   \<and> (\<forall>a b d1. parsed = [a, b] \<and> table (ISymbolModifier.name a) = Some d1
          \<and> specific (returnsType d1) = ''number'' \<longrightarrow>
         (\<forall>d2. table (ISymbolModifier.name b) = Some d2 \<and> specific (returnsType d2) = ''string'' \<longrightarrow>
            ISymbolModifierCollection.manifestType (makeModifierCollection specific table t parsed) =
              ''string'')
         \<and> (table (ISymbolModifier.name b) = None \<longrightarrow>
            ISymbolModifierCollection.manifestType (makeModifierCollection specific table t parsed) =
              ''number''
            \<and> \<not> hasRegisteredModifier
                 (modifiers (makeModifierCollection specific table t parsed) ! 1)))"
proof (intro conjI)
  show "ISymbolModifierCollection.manifestType (makeModifierCollection specific table t parsed) =
     (if registeredIn table parsed = [] then t
      else specific (returnsType (last (registeredIn table parsed))))"
    by (rule manifestType_registered)
next
  show "\<forall>d. parsed \<noteq> [] \<and> table (ISymbolModifier.name (last parsed)) = Some d \<longrightarrow>
         ISymbolModifierCollection.manifestType (makeModifierCollection specific table t parsed) =
           specific (returnsType d)"
    using manifestType_last_registered by blast
next
  show "length (modifiers (makeModifierCollection specific table t parsed)) = length parsed"
    by (simp add: modifiers_makeModifierCollection)
next
  show "\<forall>k<length parsed.
         hasRegisteredModifier (modifiers (makeModifierCollection specific table t parsed) ! k) =
           (table (ISymbolModifier.name (parsed ! k)) \<noteq> None)
         \<and> composeTypes specific t
             (take (Suc k) (modifiers (makeModifierCollection specific table t parsed))) =
           (case table (ISymbolModifier.name (parsed ! k)) of
              Some d \<Rightarrow> specific (returnsType d)
            | None \<Rightarrow> composeTypes specific t
                (take k (modifiers (makeModifierCollection specific table t parsed))))"
    unfolding modifiers_makeModifierCollection using link_of_chain by blast
next
  show "\<forall>a b d1. parsed = [a, b] \<and> table (ISymbolModifier.name a) = Some d1
          \<and> specific (returnsType d1) = ''number'' \<longrightarrow>
         (\<forall>d2. table (ISymbolModifier.name b) = Some d2 \<and> specific (returnsType d2) = ''string'' \<longrightarrow>
            ISymbolModifierCollection.manifestType (makeModifierCollection specific table t parsed) =
              ''string'')
         \<and> (table (ISymbolModifier.name b) = None \<longrightarrow>
            ISymbolModifierCollection.manifestType (makeModifierCollection specific table t parsed) =
              ''number''
            \<and> \<not> hasRegisteredModifier
                 (modifiers (makeModifierCollection specific table t parsed) ! 1))"
  proof (intro allI impI)
    fix a b d1
    assume h: "parsed = [a, b] \<and> table (ISymbolModifier.name a) = Some d1
          \<and> specific (returnsType d1) = ''number''"
    then show "(\<forall>d2. table (ISymbolModifier.name b) = Some d2 \<and> specific (returnsType d2) = ''string'' \<longrightarrow>
            ISymbolModifierCollection.manifestType (makeModifierCollection specific table t parsed) =
              ''string'')
         \<and> (table (ISymbolModifier.name b) = None \<longrightarrow>
            ISymbolModifierCollection.manifestType (makeModifierCollection specific table t parsed) =
              ''number''
            \<and> \<not> hasRegisteredModifier
                 (modifiers (makeModifierCollection specific table t parsed) ! 1))"
      using chain_of_two [of table a d1 specific b t] by simp
  qed
qed

theorem manifestType_of_chain_witness:
  "ISymbolModifierCollection.manifestType
     (makeModifierCollection firstDeclared twoModifiers ''array''
        [shorthand ''length'', shorthand ''ensure_right'']) = ''string''
   \<and> ISymbolModifierCollection.manifestType
       (makeModifierCollection firstDeclared twoModifiers ''array''
          [shorthand ''length'', shorthand ''shout'']) = ''number''
   \<and> \<not> hasRegisteredModifier
        (modifiers (makeModifierCollection firstDeclared twoModifiers ''array''
           [shorthand ''length'', shorthand ''shout'']) ! 1)"
proof -
  have m1: "twoModifiers (ISymbolModifier.name (shorthand ''length'')) =
      Some (modifierOf ''length'' [''array'', ''string''] [''number''])"
    by (simp add: twoModifiers_def shorthand_def)
  have r1: "firstDeclared (returnsType (modifierOf ''length'' [''array'', ''string''] [''number''])) =
      ''number''"
    by (simp add: firstDeclared_def modifierOf_def)
  have m2: "twoModifiers (ISymbolModifier.name (shorthand ''ensure_right'')) =
      Some (modifierOf ''ensure_right'' [''number'', ''string''] [''string''])"
    by (simp add: twoModifiers_def shorthand_def)
  have r2: "firstDeclared
      (returnsType (modifierOf ''ensure_right'' [''number'', ''string''] [''string''])) = ''string''"
    by (simp add: firstDeclared_def modifierOf_def)
  have u2: "twoModifiers (ISymbolModifier.name (shorthand ''shout'')) = None"
    by (simp add: twoModifiers_def shorthand_def)
  note two = manifestType_of_chain [THEN conjunct2, THEN conjunct2, THEN conjunct2,
      THEN conjunct2, THEN spec, THEN spec, THEN spec, THEN mp]
  have reg: "ISymbolModifierCollection.manifestType
      (makeModifierCollection firstDeclared twoModifiers ''array''
        [shorthand ''length'', shorthand ''ensure_right'']) = ''string''"
    using two [of "[shorthand ''length'', shorthand ''ensure_right'']" "shorthand ''length''"
        "shorthand ''ensure_right''" twoModifiers _ firstDeclared "''array''"] m1 r1 m2 r2
    by blast
  have unreg: "ISymbolModifierCollection.manifestType
       (makeModifierCollection firstDeclared twoModifiers ''array''
          [shorthand ''length'', shorthand ''shout'']) = ''number''
   \<and> \<not> hasRegisteredModifier
        (modifiers (makeModifierCollection firstDeclared twoModifiers ''array''
           [shorthand ''length'', shorthand ''shout'']) ! 1)"
    using two [of "[shorthand ''length'', shorthand ''shout'']" "shorthand ''length''"
        "shorthand ''shout''" twoModifiers _ firstDeclared "''array''"] m1 r1 u2
    by blast
  from reg unreg show ?thesis by (intro conjI) (elim conjE, assumption)+
qed

text \<open>
  C2 as the claim states it asks for the unmodified source type whenever the last modifier
  is not registered. On the source type \<^verbatim>\<open>string\<close> and the chain \<^verbatim>\<open>length\<close>,
  \<^verbatim>\<open>shout\<close>, whose last modifier is not registered, the manifest type is the
  \<^verbatim>\<open>number\<close> that \<^verbatim>\<open>length\<close> returns, as the claim's own example of the chain of
  two says, and not the source type.
\<close>

theorem manifestType_unregistered_last_counterexample:
  "twoModifiers (ISymbolModifier.name (last [shorthand ''length'', shorthand ''shout''])) = None
   \<and> ISymbolModifierCollection.manifestType
       (makeModifierCollection firstDeclared twoModifiers ''string''
          [shorthand ''length'', shorthand ''shout'']) \<noteq> ''string''"
  by (simp add: makeModifierCollection_def Let_def composeTypes_def typeAfter_def
      resolveModifier_def twoModifiers_def shorthand_def modifierOf_def firstDeclared_def)

end
